theory Spec2Isabelle
  imports Complex_Main "HOL-Library.Log_Nat"
begin

section \<open>The actuator placeholder\<close>

text \<open>
  The notebook ``Head control in Unity using the look_at function'' wraps an actuator
  handle in the class \<^verbatim>\<open>DynamixelMotor\<close>. The handle it uses is \<^verbatim>\<open>WsMotor\<close>, a plain
  object with five attributes. Angles are Python numbers. In the model of the motor they
  are exact reals, which gives the formulas of the class; the arithmetic of the two frame
  conversions on binary floating point, where every operation rounds, is modelled apart in
  the section on binary64 below.
\<close>

record WsMotor =
  ws_name :: string
  ws_compliant :: bool
  target_rot_position :: real
  rot_position :: real
  ws_temperature :: real

definition WsMotor_init :: "string \<Rightarrow> real \<Rightarrow> WsMotor" where
  "WsMotor_init n initial_position =
     \<lparr>ws_name = n, ws_compliant = False, target_rot_position = initial_position,
      rot_position = initial_position, ws_temperature = 20\<rparr>"

text \<open>The per-motor configuration dictionary: the two fields the wrapper reads, and the id.\<close>

record dxl_config =
  cfg_id :: nat
  cfg_offset :: real
  cfg_orientation :: string

text \<open>
  \<^verbatim>\<open>find_dxl\<close> builds the placeholder at the raw angle of the logical zero. The
  registration of the placeholder with the io object is outside this model.
\<close>

definition find_dxl :: "string \<Rightarrow> string \<Rightarrow> dxl_config \<Rightarrow> WsMotor" where
  "find_dxl part_name dxl_name dxl_cfg =
     WsMotor_init (part_name @ ''.'' @ dxl_name)
       (cfg_offset dxl_cfg * (if cfg_orientation dxl_cfg = ''indirect'' then - 1 else 1))"

section \<open>The motor wrapper\<close>

text \<open>
  The fields of \<^verbatim>\<open>DynamixelMotor\<close>, in the order \<^verbatim>\<open>__init__\<close> sets them. The field
  \<^verbatim>\<open>_timer\<close> refers to a timer object by its index in the timer store below.
\<close>

record DynamixelMotor =
  m_root_part :: string
  m_name :: string
  m_motor :: WsMotor
  m_offset :: real
  m_direct :: bool
  m_timer :: "nat option"
  m_use_static_fix :: bool

definition DynamixelMotor_init :: "string \<Rightarrow> string \<Rightarrow> WsMotor \<Rightarrow> dxl_config \<Rightarrow> DynamixelMotor" where
  "DynamixelMotor_init root_part n luos_motor cfg =
     \<lparr>m_root_part = root_part, m_name = n, m_motor = luos_motor,
      m_offset = cfg_offset cfg, m_direct = (cfg_orientation cfg = ''direct''),
      m_timer = None, m_use_static_fix = False\<rparr>"

definition name :: "DynamixelMotor \<Rightarrow> string" where
  "name d = m_root_part d @ ''.'' @ m_name d"

definition offset :: "DynamixelMotor \<Rightarrow> real" where
  "offset d = m_offset d"

definition is_direct :: "DynamixelMotor \<Rightarrow> bool" where
  "is_direct d = m_direct d"

definition as_local_pos :: "DynamixelMotor \<Rightarrow> real \<Rightarrow> real" where
  "as_local_pos d pos = (if is_direct d then pos else - pos) - offset d"

definition to_motor_pos :: "DynamixelMotor \<Rightarrow> real \<Rightarrow> real" where
  "to_motor_pos d pos = (pos + offset d) * (if is_direct d then 1 else - 1)"

definition present_position :: "DynamixelMotor \<Rightarrow> real" where
  "present_position d = as_local_pos d (rot_position (m_motor d))"

definition goal_position :: "DynamixelMotor \<Rightarrow> real" where
  "goal_position d = as_local_pos d (target_rot_position (m_motor d))"

definition compliant :: "DynamixelMotor \<Rightarrow> bool" where
  "compliant d = ws_compliant (m_motor d)"

definition temperature :: "DynamixelMotor \<Rightarrow> real" where
  "temperature d = ws_temperature (m_motor d)"

section \<open>Names the class uses and the notebook does not bind\<close>

text \<open>
  The class uses three names that no cell of the notebook binds: \<^verbatim>\<open>Timer\<close>,
  \<^verbatim>\<open>logger\<close> and \<^verbatim>\<open>interpolation_modes\<close> (the notebook imports \<^verbatim>\<open>Thread\<close> and
  \<^verbatim>\<open>Event\<close> only). The table of modes is a parameter of \<^verbatim>\<open>goto\<close> below. For the
  other two an environment says whether the name is bound. Python raises
  \<^verbatim>\<open>NameError\<close> at the use of an unbound name. A bound \<^verbatim>\<open>Timer\<close> is taken to be
  the timer class of Python's threading library, and a bound \<^verbatim>\<open>logger\<close> a logger of
  its logging library, whose \<^verbatim>\<open>info\<close> records the entry and raises nothing.
\<close>

record env =
  Timer_bound :: bool
  logger_bound :: bool

definition all_bound :: env where
  "all_bound = \<lparr>Timer_bound = True, logger_bound = True\<rparr>"

datatype error =
    NameError string
  | ValueError "string list"
  | AttributeError string
  | TypeError
  | InvalidDuration real

section \<open>Timers\<close>

text \<open>
  \<^verbatim>\<open>Timer(delay, f)\<close> makes a timer object; \<^verbatim>\<open>start\<close> arms it; \<^verbatim>\<open>cancel\<close> stops
  it if it has not begun to run and does nothing to one that has; when an armed timer's
  delay elapses, its own thread calls \<^verbatim>\<open>f\<close>, and the timer is finished when the call
  returns. The objects live in a store, a list indexed by the order of creation. The only
  callback this class ever hands to a timer is the motor's own \<^verbatim>\<open>_fix_static_error\<close>.

  The callback runs in the timer's thread, so calls on the motor from the main thread can
  fall between its statements. A timer whose callback is under way is \<open>InCallback\<close> once
  the threshold test has passed, with the error the callback has computed, and \<open>Clearing\<close>
  once it has written the register and has only its last assignment left.
\<close>

datatype timer_state =
    Initial
  | Alive
  | Cancelled
  | InCallback real
  | Clearing
  | Fired
  | Raised error

record timer_obj =
  interval :: real
  tstate :: timer_state

text \<open>One entry of the log: the \<^verbatim>\<open>extra\<close> dictionary of the call of \<^verbatim>\<open>logger.info\<close>.\<close>

record log_entry =
  log_goal_position :: real
  log_present_position :: real
  log_fixed_goal_position :: real

record world =
  dxl :: DynamixelMotor
  timers :: "timer_obj list"
  logged :: "log_entry list"

definition Timer_new :: "real \<Rightarrow> world \<Rightarrow> nat \<times> world" where
  "Timer_new delay w =
     (length (timers w), w\<lparr>timers := timers w @ [\<lparr>interval = delay, tstate = Initial\<rparr>]\<rparr>)"

definition Timer_start :: "nat \<Rightarrow> world \<Rightarrow> world" where
  "Timer_start t w =
     (if t < length (timers w) \<and> tstate (timers w ! t) = Initial
      then w\<lparr>timers := (timers w)[t := (timers w ! t)\<lparr>tstate := Alive\<rparr>]\<rparr>
      else w)"

definition Timer_cancel :: "nat \<Rightarrow> world \<Rightarrow> world" where
  "Timer_cancel t w =
     (if t < length (timers w) \<and> tstate (timers w ! t) \<in> {Initial, Alive}
      then w\<lparr>timers := (timers w)[t := (timers w ! t)\<lparr>tstate := Cancelled\<rparr>]\<rparr>
      else w)"

definition set_tstate :: "nat \<Rightarrow> timer_state \<Rightarrow> world \<Rightarrow> world" where
  "set_tstate t s w = w\<lparr>timers := (timers w)[t := (timers w ! t)\<lparr>tstate := s\<rparr>]\<rparr>"

text \<open>The timers that are armed and have neither begun to run nor been cancelled.\<close>

definition live_timers :: "world \<Rightarrow> nat list" where
  "live_timers w = filter (\<lambda>t. tstate (timers w ! t) = Alive) [0..<length (timers w)]"

section \<open>Writing the goal and the static-error fix\<close>

text \<open>
  A method returns the error it raises, if any, and the world as it leaves it: what it
  has written before raising stays written.

  \<^verbatim>\<open>_schedule_static_error_fix\<close> cancels the timer the motor refers to, then looks up
  \<^verbatim>\<open>Timer\<close>.
\<close>

definition schedule_static_error_fix :: "env \<Rightarrow> real \<Rightarrow> world \<Rightarrow> error option \<times> world" where
  "schedule_static_error_fix ev delay w =
     (let w1 = (case m_timer (dxl w) of None \<Rightarrow> w | Some t \<Rightarrow> Timer_cancel t w)
      in if \<not> Timer_bound ev then (Some (NameError ''Timer''), w1)
         else (let (t', w2) = Timer_new delay w1;
                   w3 = w2\<lparr>dxl := (dxl w2)\<lparr>m_timer := Some t'\<rparr>\<rparr>
               in (None, Timer_start t' w3)))"

text \<open>
  \<^verbatim>\<open>_fix_static_error\<close>, run from its first statement to its last with nothing in
  between. Above the threshold it computes the new goal, looks up \<^verbatim>\<open>logger\<close> and logs,
  and then writes the raw register of the actuator itself, not through the setter of the
  goal.
\<close>

definition fix_static_error :: "env \<Rightarrow> real \<Rightarrow> world \<Rightarrow> error option \<times> world" where
  "fix_static_error ev threshold w =
     (let d = dxl w;
          error = present_position d - goal_position d
      in if \<bar>error\<bar> > threshold
         then (let pos = goal_position d + error / 2
               in if \<not> logger_bound ev then (Some (NameError ''logger''), w)
                  else (None,
                        w\<lparr>dxl := d\<lparr>m_motor := (m_motor d)\<lparr>target_rot_position := to_motor_pos d pos\<rparr>,
                                     m_timer := None\<rparr>,
                          logged := logged w @ [\<lparr>log_goal_position = goal_position d,
                                                  log_present_position = present_position d,
                                                  log_fixed_goal_position = pos\<rparr>]\<rparr>))
         else (None, w))"

definition set_goal_position :: "env \<Rightarrow> world \<Rightarrow> real \<Rightarrow> error option \<times> world" where
  "set_goal_position ev w v =
     (let d = dxl w
      in if \<not> compliant d
         then (let w1 = w\<lparr>dxl := d\<lparr>m_motor := (m_motor d)\<lparr>target_rot_position := to_motor_pos d v\<rparr>\<rparr>\<rparr>
               in if m_use_static_fix d then schedule_static_error_fix ev 1 w1 else (None, w1))
         else (None, w))"

definition set_compliant :: "world \<Rightarrow> bool \<Rightarrow> world" where
  "set_compliant w v = w\<lparr>dxl := (dxl w)\<lparr>m_motor := (m_motor (dxl w))\<lparr>ws_compliant := v\<rparr>\<rparr>\<rparr>"

definition use_static_error_fix :: "world \<Rightarrow> bool \<Rightarrow> world" where
  "use_static_error_fix w activate = w\<lparr>dxl := (dxl w)\<lparr>m_use_static_fix := activate\<rparr>\<rparr>"

text \<open>
  An armed timer whose delay has elapsed and whose callback then runs to its end with no
  other call in between: the callback runs with its default threshold of two degrees, and
  the timer is finished, or has raised what the callback raised. Any other timer does
  nothing.
\<close>

definition timer_fire :: "env \<Rightarrow> nat \<Rightarrow> world \<Rightarrow> world" where
  "timer_fire ev t w =
     (if t < length (timers w) \<and> tstate (timers w ! t) = Alive
      then (case fix_static_error ev 2 w of
              (None, w1) \<Rightarrow> set_tstate t Fired w1
            | (Some e, w1) \<Rightarrow> set_tstate t (Raised e) w1)
      else w)"

text \<open>
  The same callback in the three pieces between which the main thread can act. The first
  is the computation of the error and the threshold test.
\<close>

definition callback_test :: "nat \<Rightarrow> world \<Rightarrow> world" where
  "callback_test t w =
     (if t < length (timers w) \<and> tstate (timers w ! t) = Alive
      then (let d = dxl w;
                error = present_position d - goal_position d
            in if \<bar>error\<bar> > 2 then set_tstate t (InCallback error) w
               else set_tstate t Fired w)
      else w)"

text \<open>
  The second is the body of the conditional up to the write of the register: the new goal
  from the goal as it is now and the error computed before, the log line, the write.
\<close>

definition callback_write :: "env \<Rightarrow> nat \<Rightarrow> world \<Rightarrow> world" where
  "callback_write ev t w =
     (if t < length (timers w)
      then (case tstate (timers w ! t) of
              InCallback error \<Rightarrow>
                (let d = dxl w;
                     pos = goal_position d + error / 2
                 in if \<not> logger_bound ev then set_tstate t (Raised (NameError ''logger'')) w
                    else set_tstate t Clearing
                           (w\<lparr>dxl := d\<lparr>m_motor := (m_motor d)\<lparr>target_rot_position := to_motor_pos d pos\<rparr>\<rparr>,
                              logged := logged w @ [\<lparr>log_goal_position = goal_position d,
                                                      log_present_position = present_position d,
                                                      log_fixed_goal_position = pos\<rparr>]\<rparr>))
            | _ \<Rightarrow> w)
      else w)"

text \<open>The third is the last statement, \<^verbatim>\<open>self._timer = None\<close>, after which the call returns.\<close>

definition callback_clear :: "nat \<Rightarrow> world \<Rightarrow> world" where
  "callback_clear t w =
     (if t < length (timers w) \<and> tstate (timers w ! t) = Clearing
      then set_tstate t Fired (w\<lparr>dxl := (dxl w)\<lparr>m_timer := None\<rparr>\<rparr>)
      else w)"

text \<open>The gateway's sync loop stores the angle reported by the client in the placeholder.\<close>

definition sync_rot_position :: "world \<Rightarrow> real \<Rightarrow> world" where
  "sync_rot_position w v = w\<lparr>dxl := (dxl w)\<lparr>m_motor := (m_motor (dxl w))\<lparr>rot_position := v\<rparr>\<rparr>\<rparr>"

text \<open>
  \<^verbatim>\<open>attach_dxl_motors\<close>, for one entry of the configuration: the placeholder and its
  wrapper, with no timer made and nothing logged yet.
\<close>

definition attach_dxl_motor :: "string \<Rightarrow> string \<Rightarrow> dxl_config \<Rightarrow> world" where
  "attach_dxl_motor part_name motor_name cfg =
     \<lparr>dxl = DynamixelMotor_init part_name motor_name (find_dxl part_name motor_name cfg) cfg,
      timers = [], logged = []\<rparr>"

text \<open>The head's antenna of the notebook ``Testing the Head''.\<close>

definition left_antenna_config :: dxl_config where
  "left_antenna_config = \<lparr>cfg_id = 30, cfg_offset = 26, cfg_orientation = ''direct''\<rparr>"

definition left_antenna :: world where
  "left_antenna = attach_dxl_motor ''head'' ''left_antenna'' left_antenna_config"

section \<open>Events on one motor\<close>

text \<open>
  What can happen to a motor, one step at a time: the three setters called from the main
  thread, the gateway's sync, a timer whose callback runs without interruption, and the
  three pieces of a callback that is interleaved with other steps. A trajectory player
  acts on the motor only through goal writes, so its ticks are \<open>SetGoal\<close> events. An
  error raised by a goal write goes to its caller; the motor stays as the write left it.
\<close>

datatype event =
    SetGoal real
  | SetCompliant bool
  | UseStaticErrorFix bool
  | Sync real
  | TimerFires nat
  | CallbackTest nat
  | CallbackWrite nat
  | CallbackClear nat

fun step :: "env \<Rightarrow> world \<Rightarrow> event \<Rightarrow> world" where
  "step ev w (SetGoal v) = snd (set_goal_position ev w v)"
| "step ev w (SetCompliant b) = set_compliant w b"
| "step ev w (UseStaticErrorFix b) = use_static_error_fix w b"
| "step ev w (Sync v) = sync_rot_position w v"
| "step ev w (TimerFires t) = timer_fire ev t w"
| "step ev w (CallbackTest t) = callback_test t w"
| "step ev w (CallbackWrite t) = callback_write ev t w"
| "step ev w (CallbackClear t) = callback_clear t w"

definition run :: "env \<Rightarrow> event list \<Rightarrow> world \<Rightarrow> world" where
  "run ev evs w = foldl (step ev) w evs"

text \<open>The events in which no callback is interleaved with another step.\<close>

fun uninterrupted :: "event \<Rightarrow> bool" where
  "uninterrupted (CallbackTest t) = False"
| "uninterrupted (CallbackWrite t) = False"
| "uninterrupted (CallbackClear t) = False"
| "uninterrupted e = True"

text \<open>Every live timer is the one the motor's \<^verbatim>\<open>_timer\<close> field refers to.\<close>

definition timer_inv :: "world \<Rightarrow> bool" where
  "timer_inv w = list_all (\<lambda>t. m_timer (dxl w) = Some t) (live_timers w)"

section \<open>Trajectories\<close>

text \<open>
  Modelled from the spec: the data of a trajectory player, which the notebooks use and do
  not define: start value, end value, duration, interpolation mode and state. A player
  that has been constructed and not started yet is \<open>Created\<close>.
\<close>

datatype interpolation_mode = Linear | MinJerk

datatype player_state = Created | Running | Stopped | Completed

record TrajectoryPlayer =
  x0 :: real
  x1 :: real
  duration :: real
  mode :: interpolation_mode
  pstate :: player_state

text \<open>
  Modelled from the spec: the interpolation functions of the trajectory player, which the
  notebooks use and do not define. Linear mode is
  \<^verbatim>\<open>start + (end-start) * (t/duration)\<close> with \<^verbatim>\<open>t\<close> clamped to the interval from 0
  to the duration.
\<close>

definition linear_position :: "real \<Rightarrow> real \<Rightarrow> real \<Rightarrow> real \<Rightarrow> real" where
  "linear_position startv endv dur t =
     (let tc = max 0 (min dur t) in startv + (endv - startv) * (tc / dur))"

text \<open>
  Modelled from the spec: minimum-jerk mode, the quintic
  \<^verbatim>\<open>start + (end-start) * (10 tau^3 - 15 tau^4 + 6 tau^5)\<close> with \<^verbatim>\<open>tau = t/duration\<close>.
\<close>

definition minjerk_position :: "real \<Rightarrow> real \<Rightarrow> real \<Rightarrow> real \<Rightarrow> real" where
  "minjerk_position startv endv dur t =
     (let tau = max 0 (min dur t) / dur
      in startv + (endv - startv) * (10 * tau ^ 3 - 15 * tau ^ 4 + 6 * tau ^ 5))"

text \<open>Modelled from the spec: the position of a player at an elapsed time, by its mode.\<close>

definition position :: "TrajectoryPlayer \<Rightarrow> real \<Rightarrow> real" where
  "position p t =
     (case mode p of
        Linear \<Rightarrow> linear_position (x0 p) (x1 p) (duration p) t
      | MinJerk \<Rightarrow> minjerk_position (x0 p) (x1 p) (duration p) t)"

text \<open>
  What \<^verbatim>\<open>getattr\<close> can return for an attribute of the motor: a number, a truth value
  (a number to Python's arithmetic, one or zero), or an object that is not a number (a
  string, \<^verbatim>\<open>None\<close>, a method, the placeholder).
\<close>

datatype pyval = Number real | Boolean bool | NotNumber

text \<open>
  Modelled from the spec: the construction of a trajectory player, which is not in the
  notebooks. A duration that is not positive is rejected there and no player is made. The
  start value of a player is a number; from an object that is not one no player is made
  either.
\<close>

definition new_player :: "interpolation_mode \<Rightarrow> pyval \<Rightarrow> real \<Rightarrow> real \<Rightarrow> error + TrajectoryPlayer" where
  "new_player md initial_position goal dur =
     (if dur \<le> 0 then Inl (InvalidDuration dur)
      else (case initial_position of
              Number x \<Rightarrow> Inr \<lparr>x0 = x, x1 = goal, duration = dur, mode = md, pstate = Created\<rparr>
            | Boolean b \<Rightarrow> Inr \<lparr>x0 = (if b then 1 else 0), x1 = goal, duration = dur, mode = md,
                                  pstate = Created\<rparr>
            | NotNumber \<Rightarrow> Inl TypeError))"

text \<open>
  Modelled from the spec: the table \<^verbatim>\<open>interpolation_modes\<close>, which \<^verbatim>\<open>goto\<close> reads
  and the notebooks do not define. Its keys are the two modes that the docstring of
  \<^verbatim>\<open>goto\<close> names.
\<close>

definition interpolation_modes :: "(string \<times> (pyval \<Rightarrow> real \<Rightarrow> real \<Rightarrow> error + TrajectoryPlayer)) list" where
  "interpolation_modes = [(''linear'', new_player Linear), (''minjerk'', new_player MinJerk)]"

text \<open>Modelled from the spec: a player that has been started is running.\<close>

definition start :: "TrajectoryPlayer \<Rightarrow> TrajectoryPlayer" where
  "start p = p\<lparr>pstate := Running\<rparr>"

text \<open>Modelled from the spec: \<^verbatim>\<open>stop\<close> halts a running player and no other.\<close>

definition stop :: "TrajectoryPlayer \<Rightarrow> TrajectoryPlayer" where
  "stop p = (if pstate p = Running then p\<lparr>pstate := Stopped\<rparr> else p)"

text \<open>
  Modelled from the spec: one tick of the player's loop at an elapsed time. A running
  player whose duration has elapsed is completed, with no write; before that the tick
  writes the position through the motor's setter of the goal. A write that raises ends the
  loop, as an uncaught error ends the thread that runs it, and the player writes no more.
\<close>

definition tick :: "env \<Rightarrow> TrajectoryPlayer \<Rightarrow> real \<Rightarrow> world \<Rightarrow> TrajectoryPlayer \<times> world" where
  "tick ev p t w =
     (if pstate p \<noteq> Running then (p, w)
      else if t \<ge> duration p then (p\<lparr>pstate := Completed\<rparr>, w)
      else (case set_goal_position ev w (position p t) of
              (None, w') \<Rightarrow> (p, w')
            | (Some e, w') \<Rightarrow> (p\<lparr>pstate := Stopped\<rparr>, w')))"

text \<open>Modelled from the spec: the ticks at a list of elapsed times, in order.\<close>

fun ticks :: "env \<Rightarrow> TrajectoryPlayer \<Rightarrow> real list \<Rightarrow> world \<Rightarrow> TrajectoryPlayer \<times> world" where
  "ticks ev p [] w = (p, w)"
| "ticks ev p (t # ts) w = (case tick ev p t w of (p', w') \<Rightarrow> ticks ev p' ts w')"

text \<open>
  Modelled from the spec: \<^verbatim>\<open>wait\<close> blocks the caller through the ticks, one per
  period, up to the first one at or after the duration.
\<close>

definition wait :: "env \<Rightarrow> real \<Rightarrow> TrajectoryPlayer \<Rightarrow> world \<Rightarrow> TrajectoryPlayer \<times> world" where
  "wait ev period p w =
     ticks ev p (map (\<lambda>k. real k * period) [0..<Suc (nat \<lceil>duration p / period\<rceil>)]) w"

text \<open>
  \<^verbatim>\<open>getattr(self, starting_point)\<close> on a motor whose handle is the placeholder. The
  attributes of the instance and the properties of the class give their values. The two
  properties \<^verbatim>\<open>moving_speed\<close> and \<^verbatim>\<open>torque_limit\<close> read attributes that the
  placeholder does not have, which raises. The methods of the class and the attributes
  that every Python object has are objects that are not numbers. Any other name raises.
\<close>

definition object_attributes :: "string list" where
  "object_attributes =
     [''__class__'', ''__delattr__'', ''__dict__'', ''__dir__'', ''__doc__'', ''__eq__'',
      ''__format__'', ''__ge__'', ''__getattribute__'', ''__gt__'', ''__hash__'',
      ''__init__'', ''__init_subclass__'', ''__le__'', ''__lt__'', ''__module__'', ''__ne__'',
      ''__new__'', ''__reduce__'', ''__reduce_ex__'', ''__repr__'', ''__setattr__'',
      ''__sizeof__'', ''__str__'', ''__subclasshook__'', ''__weakref__'']"

definition method_attributes :: "string list" where
  "method_attributes =
     [''is_direct'', ''_as_local_pos'', ''_to_motor_pos'', ''goto'', ''use_static_error_fix'',
      ''_schedule_static_error_fix'', ''_fix_static_error'']"

definition getattr :: "DynamixelMotor \<Rightarrow> string \<Rightarrow> error + pyval" where
  "getattr d a =
     (if a = ''present_position'' then Inr (Number (present_position d))
      else if a = ''goal_position'' then Inr (Number (goal_position d))
      else if a = ''offset'' then Inr (Number (offset d))
      else if a = ''_offset'' then Inr (Number (m_offset d))
      else if a = ''temperature'' then Inr (Number (temperature d))
      else if a = ''compliant'' then Inr (Boolean (compliant d))
      else if a = ''_direct'' then Inr (Boolean (m_direct d))
      else if a = ''_use_static_fix'' then Inr (Boolean (m_use_static_fix d))
      else if a = ''moving_speed'' then Inl (AttributeError ''target_rot_speed'')
      else if a = ''torque_limit'' then Inl (AttributeError ''power_ratio_limit'')
      else if a \<in> {''name'', ''_name'', ''_root_part'', ''_motor'', ''_timer''} then Inr NotNumber
      else if a \<in> set method_attributes \<or> a \<in> set object_attributes then Inr NotNumber
      else Inl (AttributeError a))"

text \<open>
  \<^verbatim>\<open>DynamixelMotor.goto\<close>. The table of modes and the tick period are parameters. The
  result is what the call returns or raises, with the world as the call leaves it.
\<close>

definition goto ::
  "env \<Rightarrow> (string \<times> (pyval \<Rightarrow> real \<Rightarrow> real \<Rightarrow> error + TrajectoryPlayer)) list \<Rightarrow> real \<Rightarrow> world \<Rightarrow>
   real \<Rightarrow> real \<Rightarrow> string \<Rightarrow> bool \<Rightarrow> string \<Rightarrow> (error + TrajectoryPlayer) \<times> world" where
  "goto ev modes period w goal dur starting_point wt interpolation_mode =
     (case map_of modes interpolation_mode of
        None \<Rightarrow> (Inl (ValueError (map fst modes)), w)
      | Some ctor \<Rightarrow>
          (case getattr (dxl w) starting_point of
             Inl e \<Rightarrow> (Inl e, w)
           | Inr x \<Rightarrow>
               (case ctor x goal dur of
                  Inl e \<Rightarrow> (Inl e, w)
                | Inr traj_player \<Rightarrow>
                    (let p1 = start traj_player
                     in if wt then (case wait ev period p1 w of (p2, w2) \<Rightarrow> (Inr p2, w2))
                        else (Inr p1, w)))))"

section \<open>The two conversions on binary64\<close>

text \<open>
  A Python float is a binary64 number: an integer of at most 53 bits times a power of two.
  Here it is a pair of the integer and the exponent. Each arithmetic operation gives the
  exact result rounded to 53 bits, to the nearest and on a tie to the even one. The range
  of the exponent is not bounded in this model, so it has no overflow, no subnormal
  numbers, no infinities and no NaN; angles in degrees are far from all of them.
\<close>

type_synonym f64 = "int \<times> int"

definition f64_val :: "f64 \<Rightarrow> real" where
  "f64_val x = of_int (fst x) * 2 powi (snd x)"

text \<open>The integer nearest to \<open>n / 2 ^ k\<close> for a natural \<open>n\<close>, the even one on a tie.\<close>

definition round_half_even :: "int \<Rightarrow> nat \<Rightarrow> int" where
  "round_half_even n k =
     (let q = n div 2 ^ k; r = n mod 2 ^ k
      in if 2 * r < 2 ^ k \<or> (2 * r = 2 ^ k \<and> even q) then q else q + 1)"

definition f64_round :: "int \<Rightarrow> int \<Rightarrow> f64" where
  "f64_round m e =
     (let k = bitlen \<bar>m\<bar> - 53
      in if k \<le> 0 then (m, e) else (sgn m * round_half_even \<bar>m\<bar> (nat k), e + k))"

definition f64_neg :: "f64 \<Rightarrow> f64" where
  "f64_neg x = (- fst x, snd x)"

definition f64_add :: "f64 \<Rightarrow> f64 \<Rightarrow> f64" where
  "f64_add x y =
     (let e = min (snd x) (snd y)
      in f64_round (fst x * 2 ^ nat (snd x - e) + fst y * 2 ^ nat (snd y - e)) e)"

definition f64_sub :: "f64 \<Rightarrow> f64 \<Rightarrow> f64" where
  "f64_sub x y = f64_add x (f64_neg y)"

definition f64_mul :: "f64 \<Rightarrow> f64 \<Rightarrow> f64" where
  "f64_mul x y = f64_round (fst x * fst y) (snd x + snd y)"

text \<open>
  \<^verbatim>\<open>_as_local_pos\<close> and \<^verbatim>\<open>_to_motor_pos\<close> on floats, for a motor with the given
  orientation and offset. The factor of the second is the integer 1 or -1, which the
  multiplication takes as a float.
\<close>

definition as_local_pos_f64 :: "bool \<Rightarrow> f64 \<Rightarrow> f64 \<Rightarrow> f64" where
  "as_local_pos_f64 direct off pos = f64_sub (if direct then pos else f64_neg pos) off"

definition to_motor_pos_f64 :: "bool \<Rightarrow> f64 \<Rightarrow> f64 \<Rightarrow> f64" where
  "to_motor_pos_f64 direct off pos = f64_mul (f64_add pos off) (if direct then (1, 0) else (- 1, 0))"

text \<open>The float that Python reads the literal \<^verbatim>\<open>0.1\<close> as.\<close>

definition f64_tenth :: f64 where
  "f64_tenth = (3602879701896397, - 55)"

section \<open>Unfolding sets and facts about the timer store\<close>

lemmas motor_defs = present_position_def goal_position_def as_local_pos_def to_motor_pos_def
  offset_def is_direct_def compliant_def

lemmas antenna_defs = left_antenna_def attach_dxl_motor_def DynamixelMotor_init_def find_dxl_def
  WsMotor_init_def left_antenna_config_def

lemmas world_defs = run_def set_goal_position_def set_compliant_def use_static_error_fix_def
  sync_rot_position_def timer_fire_def fix_static_error_def schedule_static_error_fix_def
  Timer_new_def Timer_start_def Timer_cancel_def live_timers_def set_tstate_def
  callback_test_def callback_write_def callback_clear_def all_bound_def

lemma live_timers_set:
  "set (live_timers w) = {t. t < length (timers w) \<and> tstate (timers w ! t) = Alive}"
  by (auto simp: live_timers_def)

lemma live_timers_distinct: "distinct (live_timers w)"
  by (simp add: live_timers_def)

lemma timer_inv_iff:
  "timer_inv w \<longleftrightarrow> (\<forall>t < length (timers w). tstate (timers w ! t) = Alive \<longrightarrow> m_timer (dxl w) = Some t)"
  by (auto simp: timer_inv_def list_all_iff live_timers_set)

lemma timer_inv_at_most_one:
  assumes "timer_inv w"
  shows "length (live_timers w) \<le> 1"
proof (cases "live_timers w")
  case Nil
  then show ?thesis by simp
next
  case (Cons a as)
  have all: "\<forall>t \<in> set (live_timers w). m_timer (dxl w) = Some t"
    using assms by (simp add: timer_inv_def list_all_iff)
  have "as = []"
  proof (cases as)
    case Nil
    then show ?thesis .
  next
    case (Cons b bs)
    with \<open>live_timers w = a # as\<close> all have "a = b" by auto
    moreover from live_timers_distinct [of w] \<open>live_timers w = a # as\<close> Cons have "a \<noteq> b" by auto
    ultimately show ?thesis by simp
  qed
  with Cons show ?thesis by simp
qed

lemma live_timers_append:
  "live_timers (w\<lparr>timers := ts @ [x]\<rparr>) =
     filter (\<lambda>t. tstate (ts ! t) = Alive) [0..<length ts] @ (if tstate x = Alive then [length ts] else [])"
  by (auto simp: live_timers_def nth_append intro: filter_cong)

lemma cancel_pending_no_live:
  assumes "timer_inv w"
  defines "w1 \<equiv> (case m_timer (dxl w) of None \<Rightarrow> w | Some t \<Rightarrow> Timer_cancel t w)"
  shows "dxl w1 = dxl w" and "length (timers w1) = length (timers w)"
    and "\<forall>t < length (timers w1). tstate (timers w1 ! t) \<noteq> Alive"
proof -
  show "dxl w1 = dxl w"
    by (simp add: w1_def Timer_cancel_def split: option.splits)
  show "length (timers w1) = length (timers w)"
    by (simp add: w1_def Timer_cancel_def split: option.splits)
  show "\<forall>t < length (timers w1). tstate (timers w1 ! t) \<noteq> Alive"
  proof (cases "m_timer (dxl w)")
    case None
    with assms(1) show ?thesis by (auto simp: w1_def timer_inv_iff)
  next
    case (Some t0)
    with assms(1) have only: "\<forall>t < length (timers w). tstate (timers w ! t) = Alive \<longrightarrow> t = t0"
      by (auto simp: timer_inv_iff)
    show ?thesis
    proof (intro allI impI)
      fix t assume "t < length (timers w1)"
      then have lt: "t < length (timers w)"
        by (simp add: w1_def Timer_cancel_def Some split: if_splits)
      show "tstate (timers w1 ! t) \<noteq> Alive"
      proof (cases "t = t0")
        case True
        with lt show ?thesis by (auto simp: w1_def Some Timer_cancel_def)
      next
        case False
        with only lt have "tstate (timers w ! t) \<noteq> Alive" by blast
        with False lt show ?thesis by (auto simp: w1_def Some Timer_cancel_def)
      qed
    qed
  qed
qed

lemma schedule_unfold:
  "schedule_static_error_fix ev delay w =
     (let w1 = (case m_timer (dxl w) of None \<Rightarrow> w | Some t \<Rightarrow> Timer_cancel t w)
      in if \<not> Timer_bound ev then (Some (NameError ''Timer''), w1)
         else (None, w1\<lparr>dxl := (dxl w1)\<lparr>m_timer := Some (length (timers w1))\<rparr>,
                        timers := timers w1 @ [\<lparr>interval = delay, tstate = Alive\<rparr>]\<rparr>))"
  by (simp add: schedule_static_error_fix_def Timer_new_def Timer_start_def Let_def)

lemma schedule_live:
  assumes "timer_inv w" and "Timer_bound ev"
  shows "live_timers (snd (schedule_static_error_fix ev delay w)) = [length (timers w)]"
    and "fst (schedule_static_error_fix ev delay w) = None"
    and "timer_inv (snd (schedule_static_error_fix ev delay w))"
proof -
  define w1 where "w1 = (case m_timer (dxl w) of None \<Rightarrow> w | Some t \<Rightarrow> Timer_cancel t w)"
  note c = cancel_pending_no_live [OF assms(1), folded w1_def]
  have eq: "schedule_static_error_fix ev delay w =
     (None, w1\<lparr>dxl := (dxl w1)\<lparr>m_timer := Some (length (timers w1))\<rparr>,
               timers := timers w1 @ [\<lparr>interval = delay, tstate = Alive\<rparr>]\<rparr>)"
    using assms(2) by (simp add: schedule_unfold w1_def Let_def)
  have none: "filter (\<lambda>t. tstate (timers w1 ! t) = Alive) [0..<length (timers w1)] = []"
    using c(3) by (auto simp: filter_empty_conv)
  show live: "live_timers (snd (schedule_static_error_fix ev delay w)) = [length (timers w)]"
    unfolding eq using none c(2) by (simp add: live_timers_append)
  show "fst (schedule_static_error_fix ev delay w) = None"
    unfolding eq by simp
  have mt: "m_timer (dxl (snd (schedule_static_error_fix ev delay w))) = Some (length (timers w))"
    unfolding eq using c(2) by simp
  show "timer_inv (snd (schedule_static_error_fix ev delay w))"
    using live mt by (simp add: timer_inv_def)
qed

lemma schedule_unbound:
  assumes "timer_inv w" and "\<not> Timer_bound ev"
  shows "live_timers (snd (schedule_static_error_fix ev delay w)) = []"
    and "fst (schedule_static_error_fix ev delay w) = Some (NameError ''Timer'')"
    and "timer_inv (snd (schedule_static_error_fix ev delay w))"
proof -
  define w1 where "w1 = (case m_timer (dxl w) of None \<Rightarrow> w | Some t \<Rightarrow> Timer_cancel t w)"
  note c = cancel_pending_no_live [OF assms(1), folded w1_def]
  have eq: "schedule_static_error_fix ev delay w = (Some (NameError ''Timer''), w1)"
    using assms(2) by (simp add: schedule_unfold w1_def Let_def)
  show live: "live_timers (snd (schedule_static_error_fix ev delay w)) = []"
    unfolding eq using c(3) by (auto simp: live_timers_def filter_empty_conv)
  show "fst (schedule_static_error_fix ev delay w) = Some (NameError ''Timer'')"
    unfolding eq by simp
  show "timer_inv (snd (schedule_static_error_fix ev delay w))"
    using live by (simp add: timer_inv_def)
qed

lemma fix_static_error_timers: "timers (snd (fix_static_error ev thr w)) = timers w"
  by (simp add: fix_static_error_def Let_def)

lemma timer_fire_timers:
  assumes "t < length (timers w) \<and> tstate (timers w ! t) = Alive"
  shows "\<exists>s. s \<noteq> Alive \<and> timers (timer_fire ev t w) = (timers w)[t := (timers w ! t)\<lparr>tstate := s\<rparr>]"
proof (cases "fix_static_error ev 2 w")
  case (Pair r w1)
  with fix_static_error_timers [of ev 2 w] have tw: "timers w1 = timers w" by simp
  show ?thesis
  proof (cases r)
    case None
    with Pair assms tw have "timers (timer_fire ev t w) = (timers w)[t := (timers w ! t)\<lparr>tstate := Fired\<rparr>]"
      by (simp add: timer_fire_def set_tstate_def)
    then show ?thesis by blast
  next
    case (Some e)
    with Pair assms tw have "timers (timer_fire ev t w) = (timers w)[t := (timers w ! t)\<lparr>tstate := Raised e\<rparr>]"
      by (simp add: timer_fire_def set_tstate_def)
    then show ?thesis by blast
  qed
qed

lemma live_timers_fire:
  "live_timers (timer_fire ev t w) = removeAll t (live_timers w)"
proof (cases "t < length (timers w) \<and> tstate (timers w ! t) = Alive")
  case True
  from timer_fire_timers [OF True] obtain s where s: "s \<noteq> Alive"
    and ts: "timers (timer_fire ev t w) = (timers w)[t := (timers w ! t)\<lparr>tstate := s\<rparr>]"
    by blast
  have "live_timers (timer_fire ev t w) =
      filter (\<lambda>k. tstate ((timers w)[t := (timers w ! t)\<lparr>tstate := s\<rparr>] ! k) = Alive) [0..<length (timers w)]"
    by (simp add: live_timers_def ts)
  also have "\<dots> = filter (\<lambda>k. k \<noteq> t \<and> tstate (timers w ! k) = Alive) [0..<length (timers w)]"
  proof (rule filter_cong [OF refl])
    fix k assume "k \<in> set [0..<length (timers w)]"
    then show "(tstate ((timers w)[t := (timers w ! t)\<lparr>tstate := s\<rparr>] ! k) = Alive)
        = (k \<noteq> t \<and> tstate (timers w ! k) = Alive)"
      using s by (cases "k = t") simp_all
  qed
  also have "\<dots> = removeAll t (live_timers w)"
    by (simp add: live_timers_def removeAll_filter_not_eq conj_commute eq_commute [of t])
  finally show ?thesis .
next
  case False
  then have "t \<notin> set (live_timers w)" by (auto simp: live_timers_set)
  with False show ?thesis by (auto simp: timer_fire_def)
qed

lemma timer_fire_dxl:
  "t < length (timers w) \<and> tstate (timers w ! t) = Alive \<Longrightarrow>
   dxl (timer_fire ev t w) = dxl (snd (fix_static_error ev 2 w))"
  by (cases "fix_static_error ev 2 w")
     (auto simp: timer_fire_def set_tstate_def split: option.splits)

lemma timer_fire_idem: "timer_fire ev t (timer_fire ev t w) = timer_fire ev t w"
proof (cases "t < length (timers w) \<and> tstate (timers w ! t) = Alive")
  case True
  from timer_fire_timers [OF True] obtain s where s: "s \<noteq> Alive"
    and ts: "timers (timer_fire ev t w) = (timers w)[t := (timers w ! t)\<lparr>tstate := s\<rparr>]"
    by blast
  from True s have "tstate (timers (timer_fire ev t w) ! t) \<noteq> Alive"
    by (simp add: ts)
  then show ?thesis
    by (simp add: timer_fire_def [of ev t "timer_fire ev t w"])
next
  case False
  then show ?thesis by (auto simp: timer_fire_def)
qed

lemma timer_inv_fire:
  assumes "timer_inv w"
  shows "timer_inv (timer_fire ev t w)"
proof (cases "t < length (timers w) \<and> tstate (timers w ! t) = Alive")
  case True
  with assms have mt: "m_timer (dxl w) = Some t"
    by (simp add: timer_inv_iff)
  have "set (live_timers w) \<subseteq> {t}"
  proof
    fix k assume "k \<in> set (live_timers w)"
    with assms have "m_timer (dxl w) = Some k"
      by (simp add: timer_inv_def list_all_iff)
    with mt show "k \<in> {t}" by simp
  qed
  then have "removeAll t (live_timers w) = []"
    by (auto simp: removeAll_filter_not_eq filter_empty_conv)
  then show ?thesis by (simp add: timer_inv_def live_timers_fire)
next
  case False
  with assms show ?thesis by (auto simp: timer_fire_def)
qed

lemma timer_inv_set_goal:
  assumes "timer_inv w"
  shows "timer_inv (snd (set_goal_position ev w v))"
proof -
  let ?w1 = "w\<lparr>dxl := (dxl w)\<lparr>m_motor := (m_motor (dxl w))\<lparr>target_rot_position := to_motor_pos (dxl w) v\<rparr>\<rparr>\<rparr>"
  have 1: "timer_inv ?w1"
    using assms by (simp add: timer_inv_def live_timers_def)
  have "timer_inv (snd (schedule_static_error_fix ev 1 ?w1))"
    using schedule_live(3) [OF 1] schedule_unbound(3) [OF 1] by (cases "Timer_bound ev") auto
  with assms 1 show ?thesis
    by (simp add: set_goal_position_def Let_def)
qed

lemma timer_inv_step: "timer_inv w \<Longrightarrow> uninterrupted e \<Longrightarrow> timer_inv (step ev w e)"
proof (cases e)
  case (SetGoal v)
  assume "timer_inv w" with SetGoal show ?thesis by (simp add: timer_inv_set_goal)
next
  case (TimerFires t)
  assume "timer_inv w" with TimerFires show ?thesis by (simp add: timer_inv_fire)
qed (simp_all add: timer_inv_def live_timers_def set_compliant_def use_static_error_fix_def
      sync_rot_position_def)

lemma timer_inv_run: "timer_inv w \<Longrightarrow> list_all uninterrupted evs \<Longrightarrow> timer_inv (run ev evs w)"
  unfolding run_def by (induction evs arbitrary: w) (simp_all add: timer_inv_step)

lemma timer_inv_attach: "timer_inv (attach_dxl_motor part_name motor_name cfg)"
  by (simp add: timer_inv_def live_timers_def attach_dxl_motor_def)

text \<open>
  While no callback is interleaved with another step, a motor has at most one live timer,
  in every environment.
\<close>

lemma uninterrupted_one_live_timer:
  "list_all uninterrupted evs \<Longrightarrow>
   length (live_timers (run ev evs (attach_dxl_motor part_name motor_name cfg))) \<le> 1"
  by (rule timer_inv_at_most_one) (rule timer_inv_run [OF timer_inv_attach])

text \<open>The three pieces of a callback, one after the other, are the uninterrupted callback.\<close>

lemma callback_pieces_fire:
  assumes "t < length (timers w)" and "tstate (timers w ! t) = Alive"
  shows "callback_clear t (callback_write ev t (callback_test t w)) = timer_fire ev t w"
proof (cases "\<bar>present_position (dxl w) - goal_position (dxl w)\<bar> > 2")
  case False
  with assms show ?thesis
    by (simp add: callback_clear_def callback_write_def callback_test_def timer_fire_def
        fix_static_error_def set_tstate_def Let_def)
next
  case True
  with assms show ?thesis
    by (cases "logger_bound ev")
       (simp_all add: callback_clear_def callback_write_def callback_test_def timer_fire_def
        fix_static_error_def set_tstate_def Let_def motor_defs)
qed

text \<open>
  With the names unbound, as the notebook leaves them: the check raises at its log line,
  before the write of the register, and a goal write with the fix switched on raises at
  the construction of the timer, after the write of the register.
\<close>

lemma fix_static_error_logger_unbound:
  assumes "\<not> logger_bound ev"
    and "\<bar>present_position (dxl w) - goal_position (dxl w)\<bar> > thr"
  shows "fix_static_error ev thr w = (Some (NameError ''logger''), w)"
  using assms by (simp add: fix_static_error_def Let_def)

lemma set_goal_position_Timer_unbound:
  assumes "\<not> Timer_bound ev" and "\<not> compliant (dxl w)" and "m_use_static_fix (dxl w)"
    and "m_timer (dxl w) = None"
  shows "set_goal_position ev w v =
     (Some (NameError ''Timer''),
      w\<lparr>dxl := (dxl w)\<lparr>m_motor := (m_motor (dxl w))\<lparr>target_rot_position := to_motor_pos (dxl w) v\<rparr>\<rparr>\<rparr>)"
  using assms by (simp add: set_goal_position_def schedule_static_error_fix_def Let_def)

lemma goto_unknown_mode:
  "map_of modes interpolation_mode = None \<Longrightarrow>
   goto ev modes period w goal dur starting_point wt interpolation_mode = (Inl (ValueError (map fst modes)), w)"
  by (simp add: goto_def)

section \<open>Operations on binary64 that do not round\<close>

lemma powi_split: "e \<le> E \<Longrightarrow> (2::real) powi E = 2 ^ nat (E - e) * 2 powi e"
proof -
  assume le: "e \<le> E"
  have "(2::real) powi E = 2 powi ((E - e) + e)" by simp
  also have "\<dots> = 2 powi (E - e) * 2 powi e"
    by (rule power_int_add) simp
  also have "(2::real) powi (E - e) = 2 ^ nat (E - e)"
    using le by (simp add: power_int_def)
  finally show ?thesis .
qed

lemma round_half_even_dvd:
  assumes "2 ^ k dvd n"
  shows "round_half_even n k * 2 ^ k = n"
proof -
  from assms have "n mod 2 ^ k = 0" by simp
  then show ?thesis
    using assms by (simp add: round_half_even_def Let_def)
qed

lemma f64_round_exact:
  assumes M: "\<bar>M\<bar> < 2 ^ 53"
    and eq: "of_int m * 2 powi e = (of_int M :: real) * 2 powi E"
  shows "f64_val (f64_round m e) = of_int m * 2 powi e"
proof (cases "bitlen \<bar>m\<bar> - 53 \<le> 0")
  case True
  then show ?thesis by (simp add: f64_round_def f64_val_def)
next
  case False
  define k where "k = bitlen \<bar>m\<bar> - 53"
  from False have kpos: "0 < k" by (simp add: k_def)
  then have "bitlen \<bar>m\<bar> \<noteq> 0" by (simp add: k_def)
  then have mpos: "0 < \<bar>m\<bar>" by (simp add: bitlen_eq_zero_iff)
  have "(54::int) \<le> bitlen \<bar>m\<bar>" using kpos by (simp add: k_def)
  then have big: "2 ^ 53 \<le> \<bar>m\<bar>"
    by (simp add: bitlen_ge_iff_power)
  have lt: "e < E"
  proof (rule ccontr)
    assume "\<not> e < E"
    then have le: "E \<le> e" by simp
    have "(of_int m :: real) * (2 ^ nat (e - E) * 2 powi E) = of_int M * 2 powi E"
      using eq powi_split [OF le] by simp
    then have "(of_int m :: real) * 2 ^ nat (e - E) = of_int M"
      by simp
    then have "(of_int (m * 2 ^ nat (e - E)) :: real) = of_int M"
      by simp
    then have "M = m * 2 ^ nat (e - E)"
      by (simp only: of_int_eq_iff)
    then have "\<bar>M\<bar> = \<bar>m\<bar> * 2 ^ nat (e - E)"
      by (simp add: abs_mult)
    moreover have "\<bar>m\<bar> * 1 \<le> \<bar>m\<bar> * 2 ^ nat (e - E)"
      by (rule mult_left_mono) simp_all
    ultimately have "\<bar>m\<bar> \<le> \<bar>M\<bar>" by simp
    with big M show False by simp
  qed
  define j where "j = nat (E - e)"
  have "(of_int m :: real) * 2 powi e = of_int M * (2 ^ j * 2 powi e)"
    using eq powi_split [of e E] lt by (simp add: j_def)
  then have "(of_int m :: real) = of_int M * 2 ^ j"
    by simp
  then have "(of_int m :: real) = of_int (M * 2 ^ j)"
    by simp
  then have mM: "m = M * 2 ^ j"
    by (simp only: of_int_eq_iff)
  then have absm: "\<bar>m\<bar> = \<bar>M\<bar> * 2 ^ j"
    by (simp add: abs_mult)
  have Mpos: "0 < \<bar>M\<bar>"
    using mpos absm by (simp add: zero_less_mult_iff)
  have "bitlen \<bar>m\<bar> = bitlen \<bar>M\<bar> + int j"
    unfolding absm using Mpos by simp
  moreover have "bitlen \<bar>M\<bar> \<le> 53"
    using M by (simp add: bitlen_le_iff_power)
  ultimately have kj: "k \<le> int j" by (simp add: k_def)
  then have "nat k \<le> j" by simp
  then have "(2::int) ^ nat k dvd 2 ^ j"
    by (rule le_imp_power_dvd)
  then have dvd: "2 ^ nat k dvd \<bar>m\<bar>"
    unfolding absm by (rule dvd_mult)
  have r: "round_half_even \<bar>m\<bar> (nat k) * 2 ^ nat k = \<bar>m\<bar>"
    by (rule round_half_even_dvd [OF dvd])
  have "f64_val (f64_round m e) = of_int (sgn m * round_half_even \<bar>m\<bar> (nat k)) * 2 powi (e + k)"
    using kpos by (simp add: f64_round_def f64_val_def k_def Let_def)
  also have "(2::real) powi (e + k) = 2 ^ nat k * 2 powi e"
    using powi_split [of e "e + k"] kpos by simp
  also have "of_int (sgn m * round_half_even \<bar>m\<bar> (nat k)) * (2 ^ nat k * 2 powi e)
      = (of_int (sgn m * (round_half_even \<bar>m\<bar> (nat k) * 2 ^ nat k)) :: real) * 2 powi e"
    by simp
  also have "sgn m * (round_half_even \<bar>m\<bar> (nat k) * 2 ^ nat k) = m"
    unfolding r by (simp add: mult_sgn_abs)
  finally show ?thesis .
qed

lemma f64_add_aligned:
  "of_int (fst x * 2 ^ nat (snd x - min (snd x) (snd y)) + fst y * 2 ^ nat (snd y - min (snd x) (snd y)))
     * 2 powi (min (snd x) (snd y)) = f64_val x + f64_val y"
proof -
  let ?e = "min (snd x) (snd y)"
  have a: "(2::real) powi (snd x) = 2 ^ nat (snd x - ?e) * 2 powi ?e"
    by (rule powi_split) simp
  have b: "(2::real) powi (snd y) = 2 ^ nat (snd y - ?e) * 2 powi ?e"
    by (rule powi_split) simp
  show ?thesis
    unfolding f64_val_def a b by (simp add: algebra_simps)
qed

lemma f64_add_exact:
  assumes "\<bar>M\<bar> < 2 ^ 53"
    and "f64_val x + f64_val y = of_int M * 2 powi E"
  shows "f64_val (f64_add x y) = f64_val x + f64_val y"
proof -
  let ?e = "min (snd x) (snd y)"
  let ?s = "fst x * 2 ^ nat (snd x - ?e) + fst y * 2 ^ nat (snd y - ?e)"
  have "of_int ?s * 2 powi ?e = (of_int M :: real) * 2 powi E"
    using f64_add_aligned [of x y] assms(2) by simp
  from f64_round_exact [OF assms(1) this] show ?thesis
    using f64_add_aligned [of x y] by (simp add: f64_add_def Let_def)
qed

lemma f64_mul_exact:
  assumes "\<bar>M\<bar> < 2 ^ 53"
    and "f64_val x * f64_val y = of_int M * 2 powi E"
  shows "f64_val (f64_mul x y) = f64_val x * f64_val y"
proof -
  have p: "of_int (fst x * fst y) * 2 powi (snd x + snd y) = f64_val x * f64_val y"
    by (simp add: f64_val_def power_int_add)
  with assms(2) have "of_int (fst x * fst y) * 2 powi (snd x + snd y) = (of_int M :: real) * 2 powi E"
    by simp
  from f64_round_exact [OF assms(1) this] show ?thesis
    using p by (simp add: f64_mul_def)
qed

lemma f64_round_trip_exact:
  assumes x: "\<bar>fst xf\<bar> < 2 ^ 53"
    and sub: "f64_val (as_local_pos_f64 direct off xf)
                = (if direct then f64_val xf else - f64_val xf) - f64_val off"
  shows "f64_val (to_motor_pos_f64 direct off (as_local_pos_f64 direct off xf)) = f64_val xf"
proof -
  let ?y = "as_local_pos_f64 direct off xf"
  let ?s = "if direct then (1::int) else - 1"
  have sum: "f64_val ?y + f64_val off = of_int (?s * fst xf) * 2 powi (snd xf)"
    using sub by (simp add: f64_val_def)
  have xs: "\<bar>?s * fst xf\<bar> < 2 ^ 53" using x by simp
  have z: "f64_val (f64_add ?y off) = f64_val ?y + f64_val off"
    by (rule f64_add_exact [OF xs sum])
  have prod: "f64_val (f64_add ?y off) * f64_val (?s, 0) = of_int (fst xf) * 2 powi (snd xf)"
    unfolding z sum by (simp add: f64_val_def)
  have "f64_val (f64_mul (f64_add ?y off) (?s, 0)) = f64_val (f64_add ?y off) * f64_val (?s, 0)"
    by (rule f64_mul_exact [OF x prod])
  with prod have "f64_val (f64_mul (f64_add ?y off) (?s, 0)) = f64_val xf"
    by (simp add: f64_val_def)
  moreover have "to_motor_pos_f64 direct off ?y = f64_mul (f64_add ?y off) (?s, 0)"
    by (simp add: to_motor_pos_f64_def)
  ultimately show ?thesis by simp
qed

section \<open>The compliance guard of the goal setter\<close>

text \<open>
  Claim C1. While the motor is compliant, a write to \<^verbatim>\<open>goal_position\<close> changes nothing
  and raises nothing: the setter returns no error and the world it was given. After the
  compliant flag is set to true, a goal write leaves the actuator's target register as it
  was and a read of \<^verbatim>\<open>goal_position\<close> gives the value it gave before the write.
\<close>

theorem C1_compliant_goal_write:
  "(compliant (dxl w) \<longrightarrow> set_goal_position ev w v = (None, w))
   \<and> set_goal_position ev (set_compliant w True) v = (None, set_compliant w True)
   \<and> goal_position (dxl (snd (set_goal_position ev (set_compliant w True) v))) = goal_position (dxl w)
   \<and> target_rot_position (m_motor (dxl (snd (set_goal_position ev (set_compliant w True) v))))
       = target_rot_position (m_motor (dxl w))"
  by (simp add: set_goal_position_def set_compliant_def motor_defs)

text \<open>
  The left antenna is sent to 45 degrees and then made compliant; a write of 10 degrees
  is dropped and the goal still reads 45.
\<close>

theorem C1_compliant_goal_write_witness:
  "set_goal_position all_bound left_antenna 45 = (None, run all_bound [SetGoal 45] left_antenna)
   \<and> compliant (dxl (run all_bound [SetGoal 45, SetCompliant True] left_antenna))
   \<and> goal_position (dxl (run all_bound [SetGoal 45, SetCompliant True] left_antenna)) = 45
   \<and> set_goal_position all_bound (run all_bound [SetGoal 45, SetCompliant True] left_antenna) 10
       = (None, run all_bound [SetGoal 45, SetCompliant True] left_antenna)"
  using C1_compliant_goal_write [of "run all_bound [SetGoal 45, SetCompliant True] left_antenna" all_bound 10]
  by (simp add: world_defs motor_defs antenna_defs)

section \<open>Rejections of goto\<close>

text \<open>
  Claim C2. A call of \<^verbatim>\<open>goto\<close> with a duration that is zero or negative is rejected
  during the call itself: the construction of the player fails, the call ends in an error
  whatever the other arguments are, and the motor is as it was, so no position is written.
\<close>

theorem C2_nonpositive_duration_rejected:
  assumes "dur \<le> 0"
  shows "new_player md x goal dur = Inl (InvalidDuration dur)
    \<and> isl (fst (goto ev interpolation_modes period w goal dur starting_point wt interpolation_mode))
    \<and> snd (goto ev interpolation_modes period w goal dur starting_point wt interpolation_mode) = w"
  using assms
  by (simp add: goto_def interpolation_modes_def new_player_def split: option.splits sum.splits)

theorem C2_nonpositive_duration_rejected_witness:
  "(0::real) \<le> 0
   \<and> goto all_bound interpolation_modes (1 / 100) left_antenna 45 0 ''present_position'' True ''linear''
       = (Inl (InvalidDuration 0), left_antenna)
   \<and> goto all_bound interpolation_modes (1 / 100) left_antenna 45 (- 1) ''goal_position'' False ''minjerk''
       = (Inl (InvalidDuration (- 1)), left_antenna)"
proof -
  have h: "(0::real) \<le> 0" "(- 1::real) \<le> 0" by simp_all
  show ?thesis
    using C2_nonpositive_duration_rejected [OF h(1), where md = Linear and x = "Number 0" and goal = 45
        and ev = all_bound and period = "1 / 100" and w = left_antenna
        and starting_point = "''present_position''" and wt = True and interpolation_mode = "''linear''"]
      C2_nonpositive_duration_rejected [OF h(2), where md = MinJerk and x = "Number 0" and goal = 45
        and ev = all_bound and period = "1 / 100" and w = left_antenna
        and starting_point = "''goal_position''" and wt = False and interpolation_mode = "''minjerk''"]
    by (simp add: goto_def interpolation_modes_def new_player_def getattr_def)
qed

section \<open>Frame conversion\<close>

text \<open>
  Claim C3. The logical angle read through \<^verbatim>\<open>present_position\<close> and
  \<^verbatim>\<open>goal_position\<close> is the raw angle, negated when the motor is not direct, minus the
  offset. The left antenna (offset 26, direct) at raw angle 30 reads 4.
\<close>

theorem C3_local_position:
  "present_position d = (if is_direct d then rot_position (m_motor d) else - rot_position (m_motor d)) - offset d
   \<and> goal_position d = (if is_direct d then target_rot_position (m_motor d) else - target_rot_position (m_motor d)) - offset d
   \<and> offset (dxl left_antenna) = 26 \<and> is_direct (dxl left_antenna)
   \<and> present_position (dxl (sync_rot_position left_antenna 30)) = 4"
  by (simp add: motor_defs antenna_defs sync_rot_position_def)

text \<open>
  Claim C4, as the code has it. On Python floats the round trip is not the identity for
  every raw angle. For the direct motor with offset 26.0 and the raw angle 0.1, the
  subtraction rounds, and converting to the logical frame and back gives the float that
  Python prints as 0.10000000000000142, which lies 51 units of \<open>2 ^ - 55\<close> above 0.1.
\<close>

theorem C4_float_round_trip_counterexample:
  "to_motor_pos_f64 True (26, 0) (as_local_pos_f64 True (26, 0) f64_tenth) = (28147497671066, - 48)
   \<and> f64_val (to_motor_pos_f64 True (26, 0) (as_local_pos_f64 True (26, 0) f64_tenth)) \<noteq> f64_val f64_tenth
   \<and> f64_val (to_motor_pos_f64 True (26, 0) (as_local_pos_f64 True (26, 0) f64_tenth)) - f64_val f64_tenth
       = 51 / 2 ^ 55"
proof -
  have "to_motor_pos_f64 True (26, 0) (as_local_pos_f64 True (26, 0) f64_tenth) = (28147497671066, - 48)"
    by code_simp
  then show ?thesis
    by (simp add: f64_val_def f64_tenth_def)
qed

text \<open>
  Claim C4, amended. In exact arithmetic, converting a raw angle to the logical frame and
  back gives the raw angle again, for every offset and both orientations. On floats it
  gives the raw angle again whenever the subtraction of the offset does not round.
\<close>

theorem C4_round_trip_up_to_rounding:
  "to_motor_pos d (as_local_pos d x) = x
   \<and> (\<bar>fst xf\<bar> < 2 ^ 53
        \<and> f64_val (as_local_pos_f64 direct off xf)
            = (if direct then f64_val xf else - f64_val xf) - f64_val off
      \<longrightarrow> f64_val (to_motor_pos_f64 direct off (as_local_pos_f64 direct off xf)) = f64_val xf)"
  using f64_round_trip_exact [of xf direct off]
  by (simp add: to_motor_pos_def as_local_pos_def)

text \<open>
  Raw angle 30.0 on the direct motor with offset 26.0, and raw angle 45.0 on an indirect
  motor with offset -90.0 as the shoulder has: no operation rounds.
\<close>

theorem C4_round_trip_up_to_rounding_witness:
  "\<bar>fst ((30, 0) :: f64)\<bar> < 2 ^ 53
   \<and> f64_val (as_local_pos_f64 True (26, 0) (30, 0)) = f64_val (30, 0) - f64_val (26, 0)
   \<and> f64_val (as_local_pos_f64 True (26, 0) (30, 0)) = 4
   \<and> f64_val (to_motor_pos_f64 True (26, 0) (as_local_pos_f64 True (26, 0) (30, 0))) = 30
   \<and> f64_val (as_local_pos_f64 False (- 90, 0) (45, 0)) = - f64_val (45, 0) - f64_val (- 90, 0)
   \<and> f64_val (to_motor_pos_f64 False (- 90, 0) (as_local_pos_f64 False (- 90, 0) (45, 0))) = 45"
proof -
  have a: "as_local_pos_f64 True (26, 0) (30, 0) = (4, 0)"
    by code_simp
  have b: "as_local_pos_f64 False (- 90, 0) (45, 0) = (45, 0)"
    by code_simp
  show ?thesis
    using C4_round_trip_up_to_rounding [where xf = "(30, 0)" and direct = True and off = "(26, 0)"]
      C4_round_trip_up_to_rounding [where xf = "(45, 0)" and direct = False and off = "(- 90, 0)"]
    by (simp add: a b f64_val_def)
qed

section \<open>The static-error fix\<close>

text \<open>
  Claim C5. With \<^verbatim>\<open>logger\<close> bound: when the check runs and the distance between the
  present and the goal position is above the threshold, it raises nothing and the target
  register is rewritten to the raw angle of goal + (present - goal) / 2. When the distance
  is within the threshold the check changes nothing, in every environment. A timer that
  fires runs the check with the threshold 2. The check makes and arms no timer: the timer
  store keeps its length, the live timers after a firing are those before it without the
  one that fired, and firing the same timer again does nothing.
\<close>

theorem C5_fix_static_error:
  "(logger_bound ev \<and> \<bar>present_position (dxl w) - goal_position (dxl w)\<bar> > thr \<longrightarrow>
      fst (fix_static_error ev thr w) = None
      \<and> target_rot_position (m_motor (dxl (snd (fix_static_error ev thr w))))
        = to_motor_pos (dxl w) (goal_position (dxl w) + (present_position (dxl w) - goal_position (dxl w)) / 2))
   \<and> (\<not> \<bar>present_position (dxl w) - goal_position (dxl w)\<bar> > thr \<longrightarrow> fix_static_error ev thr w = (None, w))
   \<and> timers (snd (fix_static_error ev thr w)) = timers w
   \<and> (t < length (timers w) \<and> tstate (timers w ! t) = Alive \<longrightarrow>
        dxl (timer_fire ev t w) = dxl (snd (fix_static_error ev 2 w)))
   \<and> length (timers (timer_fire ev t w)) = length (timers w)
   \<and> live_timers (timer_fire ev t w) = removeAll t (live_timers w)
   \<and> timer_fire ev t (timer_fire ev t w) = timer_fire ev t w"
proof -
  have len: "length (timers (timer_fire ev t w)) = length (timers w)"
  proof (cases "t < length (timers w) \<and> tstate (timers w ! t) = Alive")
    case True
    from timer_fire_timers [OF True, of ev] show ?thesis by auto
  next
    case False
    then show ?thesis by (auto simp: timer_fire_def)
  qed
  have big: "logger_bound ev \<and> \<bar>present_position (dxl w) - goal_position (dxl w)\<bar> > thr \<longrightarrow>
      fst (fix_static_error ev thr w) = None
      \<and> target_rot_position (m_motor (dxl (snd (fix_static_error ev thr w))))
        = to_motor_pos (dxl w) (goal_position (dxl w) + (present_position (dxl w) - goal_position (dxl w)) / 2)"
    by (simp add: fix_static_error_def Let_def)
  have small: "\<not> \<bar>present_position (dxl w) - goal_position (dxl w)\<bar> > thr \<longrightarrow> fix_static_error ev thr w = (None, w)"
    by (simp add: fix_static_error_def Let_def)
  have frame: "t < length (timers w) \<and> tstate (timers w ! t) = Alive \<longrightarrow>
        dxl (timer_fire ev t w) = dxl (snd (fix_static_error ev 2 w))"
    using timer_fire_dxl [of t w ev] by blast
  from big small len frame show ?thesis
    by (simp only: fix_static_error_timers live_timers_fire timer_fire_idem simp_thms)
qed

text \<open>
  Both names bound. The left antenna with the fix switched on is sent to 0. Reported at
  raw angle 36 it is 10 degrees off: the timer fires and moves the target from 26 to 31.
  Reported at raw angle 27 it is 1 degree off and the check leaves it alone.
\<close>

theorem C5_fix_static_error_witness:
  "logger_bound all_bound
   \<and> \<bar>present_position (dxl (run all_bound [UseStaticErrorFix True, SetGoal 0, Sync 36] left_antenna))
      - goal_position (dxl (run all_bound [UseStaticErrorFix True, SetGoal 0, Sync 36] left_antenna))\<bar> > 2
   \<and> tstate (timers (run all_bound [UseStaticErrorFix True, SetGoal 0, Sync 36] left_antenna) ! 0) = Alive
   \<and> target_rot_position (m_motor (dxl (run all_bound [UseStaticErrorFix True, SetGoal 0, Sync 36] left_antenna))) = 26
   \<and> target_rot_position (m_motor (dxl (timer_fire all_bound 0 (run all_bound [UseStaticErrorFix True, SetGoal 0, Sync 36] left_antenna)))) = 31
   \<and> fst (fix_static_error all_bound 2 (run all_bound [UseStaticErrorFix True, SetGoal 0, Sync 36] left_antenna)) = None
   \<and> live_timers (timer_fire all_bound 0 (run all_bound [UseStaticErrorFix True, SetGoal 0, Sync 36] left_antenna)) = []
   \<and> \<not> \<bar>present_position (dxl (run all_bound [UseStaticErrorFix True, SetGoal 0, Sync 27] left_antenna))
      - goal_position (dxl (run all_bound [UseStaticErrorFix True, SetGoal 0, Sync 27] left_antenna))\<bar> > 2
   \<and> fix_static_error all_bound 2 (run all_bound [UseStaticErrorFix True, SetGoal 0, Sync 27] left_antenna)
      = (None, run all_bound [UseStaticErrorFix True, SetGoal 0, Sync 27] left_antenna)"
proof -
  let ?w = "run all_bound [UseStaticErrorFix True, SetGoal 0, Sync 36] left_antenna"
  let ?w' = "run all_bound [UseStaticErrorFix True, SetGoal 0, Sync 27] left_antenna"
  have p: "present_position (dxl ?w) = 10" "goal_position (dxl ?w) = 0"
    by (simp_all add: world_defs antenna_defs motor_defs)
  have p': "present_position (dxl ?w') = 1" "goal_position (dxl ?w') = 0"
    by (simp_all add: world_defs antenna_defs motor_defs)
  have t: "length (timers ?w) = 1" "tstate (timers ?w ! 0) = Alive" "live_timers ?w = [0]"
    "target_rot_position (m_motor (dxl ?w)) = 26"
    by (simp_all add: world_defs antenna_defs motor_defs)
  have o: "to_motor_pos (dxl ?w) 5 = 31"
    by (simp add: world_defs antenna_defs motor_defs)
  have l: "logger_bound all_bound" by (simp add: all_bound_def)
  show ?thesis
    using C5_fix_static_error [where w = ?w and ev = all_bound and thr = 2 and t = 0]
      C5_fix_static_error [where w = ?w' and ev = all_bound and thr = 2 and t = 0]
    by (simp add: p p' t o l)
qed

text \<open>
  Claim C6, at a schedule where it fails. Both names bound, the left antenna with the fix
  switched on. A goal write arms timer 0. The motor is reported 10 degrees off and the
  callback of timer 0 begins: its test passes. A goal write lands now: the cancel does
  nothing to a timer that is already running, and timer 1 is armed. The callback goes on,
  writes the register and sets \<^verbatim>\<open>_timer\<close> to \<^verbatim>\<open>None\<close>. The next goal write finds no
  timer to cancel and arms timer 2: timers 1 and 2 are both live.
\<close>

theorem C6_interleaved_callback_two_live_timers:
  "live_timers (run all_bound
      [UseStaticErrorFix True, SetGoal 0, Sync 36, CallbackTest 0, SetGoal 1,
       CallbackWrite 0, CallbackClear 0, SetGoal 2] left_antenna) = [1, 2]
   \<and> map tstate (timers (run all_bound
      [UseStaticErrorFix True, SetGoal 0, Sync 36, CallbackTest 0, SetGoal 1,
       CallbackWrite 0, CallbackClear 0, SetGoal 2] left_antenna)) = [Fired, Alive, Alive]
   \<and> m_timer (dxl (run all_bound
      [UseStaticErrorFix True, SetGoal 0, Sync 36, CallbackTest 0, SetGoal 1,
       CallbackWrite 0, CallbackClear 0] left_antenna)) = None
   \<and> live_timers (run all_bound
      [UseStaticErrorFix True, SetGoal 0, Sync 36, CallbackTest 0, SetGoal 1,
       CallbackWrite 0, CallbackClear 0] left_antenna) = [1]"
  by (simp add: world_defs antenna_defs motor_defs)

section \<open>Unknown interpolation mode\<close>

text \<open>
  Claim C7. With a table of modes whose keys are linear and minjerk, whatever the
  constructors in it are, a call of \<^verbatim>\<open>goto\<close> with any other mode string raises the
  value error that lists the two modes; no constructor is called, so no player exists or is
  started, and the motor is as it was.
\<close>

theorem C7_unknown_mode_rejected:
  assumes "interpolation_mode \<notin> {''linear'', ''minjerk''}"
    and "map fst modes = [''linear'', ''minjerk'']"
  shows "goto ev modes period w goal dur starting_point wt interpolation_mode
           = (Inl (ValueError [''linear'', ''minjerk'']), w)"
proof -
  have "interpolation_mode \<notin> set (map fst modes)"
    using assms by simp
  then have "map_of modes interpolation_mode = None"
    by (simp add: map_of_eq_None_iff)
  then show ?thesis
    using assms(2) by (simp add: goto_unknown_mode)
qed

theorem C7_unknown_mode_rejected_witness:
  "''cubic'' \<notin> {''linear'', ''minjerk''}
   \<and> map fst interpolation_modes = [''linear'', ''minjerk'']
   \<and> goto all_bound interpolation_modes (1 / 100) left_antenna 45 (1 / 2) ''present_position'' True ''cubic''
       = (Inl (ValueError [''linear'', ''minjerk'']), left_antenna)"
proof -
  have h1: "''cubic'' \<notin> {''linear'', ''minjerk''}" by simp
  have h2: "map fst interpolation_modes = [''linear'', ''minjerk'']"
    by (simp add: interpolation_modes_def)
  from C7_unknown_mode_rejected [OF h1 h2] h1 h2 show ?thesis by simp
qed

section \<open>Linear interpolation\<close>

text \<open>
  Claim C8. For a positive duration, the linear position is the start at time 0 and the
  end at the duration; a time outside the interval counts as the nearer endpoint, and in
  between the position is start + (end - start) * (t / duration). A linear player made for
  these values has the same endpoints.
\<close>

theorem C8_linear_interpolation:
  assumes "0 < dur"
  shows "linear_position startv endv dur 0 = startv
    \<and> linear_position startv endv dur dur = endv
    \<and> linear_position startv endv dur (min t 0) = startv
    \<and> linear_position startv endv dur (max t dur) = endv
    \<and> linear_position startv endv dur t
        = startv + (endv - startv) * (max 0 (min dur t) / dur)
    \<and> (\<exists>p. new_player Linear (Number startv) endv dur = Inr p
          \<and> position p 0 = startv \<and> position p dur = endv)"
  using assms
  by (simp add: linear_position_def Let_def new_player_def position_def max_def min_def)

text \<open>
  The left antenna rests at 0. A linear \<^verbatim>\<open>goto\<close> to 150 in half a second returns a
  running player whose position a quarter of a second in is 75.
\<close>

theorem C8_linear_interpolation_witness:
  "(0::real) < 1 / 2
   \<and> linear_position 0 150 (1 / 2) (1 / 4) = 75
   \<and> present_position (dxl left_antenna) = 0
   \<and> (case goto all_bound interpolation_modes (1 / 100) left_antenna 150 (1 / 2) ''present_position'' False ''linear'' of
        (Inr p, w) \<Rightarrow> w = left_antenna \<and> pstate p = Running \<and> position p 0 = 0
                        \<and> position p (1 / 4) = 75 \<and> position p (1 / 2) = 150
      | (Inl e, w) \<Rightarrow> False)"
proof -
  have h: "(0::real) < 1 / 2" by simp
  have pp: "present_position (dxl left_antenna) = 0"
    by (simp add: antenna_defs motor_defs)
  show ?thesis
    using C8_linear_interpolation [OF h, where startv = 0 and endv = 150 and t = "1 / 4"]
    by (simp add: pp goto_def interpolation_modes_def new_player_def getattr_def start_def
        position_def linear_position_def)
qed

section \<open>The compliant setter\<close>

text \<open>
  Claim C9. Setting the compliant flag, to either value, writes the compliant attribute of
  the actuator and nothing else: offset, orientation, target and present position are
  unchanged, so are the timers, and setting the flag back restores the whole state.
\<close>

theorem C9_set_compliant_frame:
  "m_motor (dxl (set_compliant w v)) = (m_motor (dxl w))\<lparr>ws_compliant := v\<rparr>
   \<and> compliant (dxl (set_compliant w v)) = v
   \<and> offset (dxl (set_compliant w v)) = offset (dxl w)
   \<and> is_direct (dxl (set_compliant w v)) = is_direct (dxl w)
   \<and> target_rot_position (m_motor (dxl (set_compliant w v))) = target_rot_position (m_motor (dxl w))
   \<and> rot_position (m_motor (dxl (set_compliant w v))) = rot_position (m_motor (dxl w))
   \<and> goal_position (dxl (set_compliant w v)) = goal_position (dxl w)
   \<and> present_position (dxl (set_compliant w v)) = present_position (dxl w)
   \<and> timers (set_compliant w v) = timers w
   \<and> set_compliant (set_compliant w v) (compliant (dxl w)) = w"
  by (simp add: set_compliant_def motor_defs)

section \<open>The fix does not look at the compliant flag\<close>

text \<open>
  Claim C10. The compliance guard is in the setter of the goal only. With \<^verbatim>\<open>logger\<close>
  bound, when the check runs on a compliant motor whose error is above the threshold of 2,
  it raises nothing and still writes the corrective target to the actuator, which differs
  from the target before, while a goal write through the setter in the same state is
  dropped. The motor stays compliant. The same holds when the check runs because its timer
  fires.
\<close>

theorem C10_fix_bypasses_compliance:
  assumes "compliant (dxl w)"
    and "\<bar>present_position (dxl w) - goal_position (dxl w)\<bar> > 2"
    and "logger_bound ev"
  shows "fst (fix_static_error ev 2 w) = None
    \<and> target_rot_position (m_motor (dxl (snd (fix_static_error ev 2 w))))
           = to_motor_pos (dxl w) (goal_position (dxl w) + (present_position (dxl w) - goal_position (dxl w)) / 2)
    \<and> target_rot_position (m_motor (dxl (snd (fix_static_error ev 2 w)))) \<noteq> target_rot_position (m_motor (dxl w))
    \<and> compliant (dxl (snd (fix_static_error ev 2 w)))
    \<and> set_goal_position ev w v = (None, w)
    \<and> (t < length (timers w) \<and> tstate (timers w ! t) = Alive \<longrightarrow>
           target_rot_position (m_motor (dxl (timer_fire ev t w)))
             = to_motor_pos (dxl w) (goal_position (dxl w) + (present_position (dxl w) - goal_position (dxl w)) / 2))"
proof -
  have 0: "fst (fix_static_error ev 2 w) = None"
    using assms(2,3) by (simp add: fix_static_error_def Let_def)
  have 1: "target_rot_position (m_motor (dxl (snd (fix_static_error ev 2 w))))
           = to_motor_pos (dxl w) (goal_position (dxl w) + (present_position (dxl w) - goal_position (dxl w)) / 2)"
    using assms(2,3) by (simp add: fix_static_error_def Let_def)
  have "present_position (dxl w) - goal_position (dxl w) \<noteq> 0"
    using assms(2) by auto
  then have 2: "target_rot_position (m_motor (dxl (snd (fix_static_error ev 2 w)))) \<noteq> target_rot_position (m_motor (dxl w))"
    unfolding 1 by (auto simp: motor_defs split: if_splits)
  have 3: "compliant (dxl (snd (fix_static_error ev 2 w)))"
    using assms by (simp add: fix_static_error_def Let_def compliant_def)
  have 4: "set_goal_position ev w v = (None, w)"
    using assms(1) by (simp add: set_goal_position_def)
  have 5: "t < length (timers w) \<and> tstate (timers w ! t) = Alive \<longrightarrow>
           target_rot_position (m_motor (dxl (timer_fire ev t w)))
             = to_motor_pos (dxl w) (goal_position (dxl w) + (present_position (dxl w) - goal_position (dxl w)) / 2)"
    using 1 timer_fire_dxl [of t w ev] by simp
  from 0 1 2 3 4 5 show ?thesis by blast
qed

text \<open>
  Both names bound. The left antenna with the fix switched on is sent to 0, made compliant
  while the timer is pending, and reported at raw angle 36. The timer fires and moves the
  target from 26 to 31; a goal write of 5 degrees in the same state leaves it at 26.
\<close>

theorem C10_fix_bypasses_compliance_witness:
  "compliant (dxl (run all_bound [UseStaticErrorFix True, SetGoal 0, SetCompliant True, Sync 36] left_antenna))
   \<and> \<bar>present_position (dxl (run all_bound [UseStaticErrorFix True, SetGoal 0, SetCompliant True, Sync 36] left_antenna))
      - goal_position (dxl (run all_bound [UseStaticErrorFix True, SetGoal 0, SetCompliant True, Sync 36] left_antenna))\<bar> > 2
   \<and> logger_bound all_bound
   \<and> tstate (timers (run all_bound [UseStaticErrorFix True, SetGoal 0, SetCompliant True, Sync 36] left_antenna) ! 0) = Alive
   \<and> target_rot_position (m_motor (dxl (run all_bound [UseStaticErrorFix True, SetGoal 0, SetCompliant True, Sync 36] left_antenna))) = 26
   \<and> target_rot_position (m_motor (dxl (run all_bound [UseStaticErrorFix True, SetGoal 0, SetCompliant True, Sync 36, TimerFires 0] left_antenna))) = 31
   \<and> target_rot_position (m_motor (dxl (run all_bound [UseStaticErrorFix True, SetGoal 0, SetCompliant True, Sync 36, SetGoal 5] left_antenna))) = 26"
proof -
  let ?w = "run all_bound [UseStaticErrorFix True, SetGoal 0, SetCompliant True, Sync 36] left_antenna"
  have p: "present_position (dxl ?w) = 10" "goal_position (dxl ?w) = 0" "compliant (dxl ?w)"
    by (simp_all add: world_defs antenna_defs motor_defs)
  have t: "length (timers ?w) = 1" "tstate (timers ?w ! 0) = Alive"
    "target_rot_position (m_motor (dxl ?w)) = 26"
    by (simp_all add: world_defs antenna_defs motor_defs)
  have o: "to_motor_pos (dxl ?w) 5 = 31"
    by (simp add: world_defs antenna_defs motor_defs)
  have r: "run all_bound [UseStaticErrorFix True, SetGoal 0, SetCompliant True, Sync 36, TimerFires 0] left_antenna
             = timer_fire all_bound 0 ?w"
     "run all_bound [UseStaticErrorFix True, SetGoal 0, SetCompliant True, Sync 36, SetGoal 5] left_antenna
             = snd (set_goal_position all_bound ?w 5)"
    by (simp_all add: run_def)
  have h1: "compliant (dxl ?w)" by (rule p(3))
  have h2: "\<bar>present_position (dxl ?w) - goal_position (dxl ?w)\<bar> > 2" by (simp add: p)
  have h3: "logger_bound all_bound" by (simp add: all_bound_def)
  show ?thesis
    unfolding r
    using C10_fix_bypasses_compliance [OF h1 h2 h3, where v = 5 and t = 0]
    by (simp add: p t o h3)
qed

end
